theory Spec2Isabelle
  imports Main
begin

section \<open>The Tensor handle of ATen (aten/src/ATen/templates/TensorBody.h)\<close>

text \<open>
  \<^verbatim>\<open>at::Tensor\<close> is a value type with one data member,
  \<^verbatim>\<open>c10::intrusive_ptr<TensorImpl, UndefinedTensorImpl> impl_\<close>. The objects it
  points to live on a heap; the strong reference count is a field of the object. Every
  member function below is a function of the handle and the heap; the ones that touch a
  reference count return the new heap.
\<close>

subsection \<open>Data model\<close>

datatype MemoryFormat = Contiguous | Preserve | ChannelsLast | ChannelsLast3d

datatype Layout = Strided | Sparse | SparseCsr | Mkldnn

text \<open>
  The failures of the header, by the kind the specification gives them:
  \<^item> \<open>InvariantViolation\<close>: \<^verbatim>\<open>throw std::runtime_error("TensorImpl with nullptr is not supported")\<close>;
  \<^item> \<open>UnsupportedOperation\<close>: the \<^verbatim>\<open>TORCH_CHECK\<close> of \<^verbatim>\<open>nbytes\<close>;
  \<^item> \<open>EmptyInputs\<close>: the \<^verbatim>\<open>TORCH_CHECK\<close> of \<^verbatim>\<open>backward\<close>;
  \<^item> \<open>IndexOutOfRange\<close>: raised by \<^verbatim>\<open>c10::maybe_wrap_dim\<close>;
  \<^item> \<open>UndefinedState\<close>: a query answered by the null object;
  \<^item> \<open>UndefinedBehaviour\<close>: no C++ exception, but a read through a pointer to a
    destroyed object or past the end of an array, which C++ leaves undefined.
\<close>

datatype error =
    UndefinedState
  | InvariantViolation
  | IndexOutOfRange
  | UnsupportedOperation
  | EmptyInputs
  | UndefinedBehaviour

text \<open>
  \<^verbatim>\<open>TensorImpl\<close> is declared in c10/core/TensorImpl.h. The header reads it only through
  accessor calls \<^verbatim>\<open>impl_->f()\<close>; each field below is what one accessor answers.
  \<open>int64_t\<close> values are \<open>int\<close>, \<open>size_t\<close> values are \<open>nat\<close>; the one
  product the header computes (\<^verbatim>\<open>nbytes\<close>) has its wrap-around written out.
  The weak count is not modelled: no function below reads or writes it.
\<close>

record TensorImpl =
  refcount :: nat
  impl_sizes :: "int list"
  impl_strides :: "int list"
  impl_numel :: int
  impl_itemsize :: nat
  impl_layout :: Layout
  impl_has_storage :: bool
  impl_is_sparse :: bool
  impl_is_mkldnn :: bool
  impl_is_contiguous :: "MemoryFormat \<Rightarrow> bool"
  impl_is_strides_like_channels_last :: bool
  impl_is_strides_like_channels_last_3d :: bool

type_synonym addr = nat

text \<open>The heap: address \<open>a\<close> holds the object \<open>s ! a\<close>, or nothing once destroyed.\<close>

type_synonym heap = "TensorImpl option list"

definition lookup :: "heap \<Rightarrow> addr \<Rightarrow> TensorImpl option" where
  "lookup s a = (if a < length s then s ! a else None)"

text \<open>
  What a pointer to a backing object can be. The pointer type of the header is
  \<^verbatim>\<open>c10::intrusive_ptr<TensorImpl, UndefinedTensorImpl>\<close>: its null state is a
  pointer to the null object (\<^verbatim>\<open>UndefinedTensorImpl\<close>), which is not the raw
  \<^verbatim>\<open>nullptr\<close>. The header keeps the two apart: the constructor from an
  \<^verbatim>\<open>intrusive_ptr\<close> tests \<^verbatim>\<open>impl_.get() == nullptr\<close>, and the comment in
  \<^verbatim>\<open>createBorrow\<close> says that \<^verbatim>\<open>impl_\<close> of a valid Tensor is never null, the
  default-constructed Tensor included.
\<close>

datatype ptr = Nullptr | NullObject | Object addr

text \<open>The handle: \<open>impl = NullObject\<close> is the null (undefined) handle.\<close>

record Tensor =
  impl :: ptr

subsection \<open>The intrusive pointer\<close>

text \<open>
  Modelled from the spec: \<^verbatim>\<open>c10::intrusive_ptr\<close> (c10/util/intrusive_ptr.h) is not
  among the sources. The specification gives its discipline: a copy increments the strong
  count and references the same object; a move steals the reference without touching the
  count; destruction decrements the strong count and frees the object when it reaches
  zero, and is a no-op on null; \<^verbatim>\<open>reclaim\<close> takes a raw reference at +0;
  \<^verbatim>\<open>release\<close> gives the raw reference up without decrementing and leaves the
  pointer in its null state. \<^verbatim>\<open>get\<close> returns the raw pointer held: for the null
  state that is the address of the null object, not \<^verbatim>\<open>nullptr\<close>.
\<close>

definition intrusive_ptr_reclaim :: "ptr \<Rightarrow> heap \<Rightarrow> ptr \<times> heap" where
  "intrusive_ptr_reclaim raw s = (raw, s)"

definition intrusive_ptr_get :: "ptr \<Rightarrow> ptr" where
  "intrusive_ptr_get p = p"

definition intrusive_ptr_release :: "ptr \<Rightarrow> heap \<Rightarrow> (ptr \<times> ptr) \<times> heap" where
  \<comment> \<open>the raw pointer returned, the pointer left behind (null state), the heap\<close>
  "intrusive_ptr_release p s = ((p, NullObject), s)"

definition intrusive_ptr_copy :: "ptr \<Rightarrow> heap \<Rightarrow> ptr \<times> heap" where
  "intrusive_ptr_copy p s =
     (case p of
        Object a \<Rightarrow>
          (case lookup s a of
             None \<Rightarrow> (Object a, s)
           | Some obj \<Rightarrow> (Object a, s[a := Some (obj\<lparr>refcount := refcount obj + 1\<rparr>)]))
      | _ \<Rightarrow> (p, s))"

definition intrusive_ptr_reset :: "ptr \<Rightarrow> heap \<Rightarrow> ptr \<times> heap" where
  "intrusive_ptr_reset p s =
     (case p of
        Object a \<Rightarrow>
          (case lookup s a of
             None \<Rightarrow> (NullObject, s)
           | Some obj \<Rightarrow>
               if refcount obj \<le> 1 then (NullObject, s[a := None])
               else (NullObject, s[a := Some (obj\<lparr>refcount := refcount obj - 1\<rparr>)]))
      | _ \<Rightarrow> (NullObject, s))"

definition intrusive_ptr_use_count :: "ptr \<Rightarrow> heap \<Rightarrow> nat" where
  "intrusive_ptr_use_count p s =
     (case p of
        Object a \<Rightarrow> (case lookup s a of None \<Rightarrow> 0 | Some obj \<Rightarrow> refcount obj)
      | _ \<Rightarrow> 0)"

text \<open>
  The conversion to \<^verbatim>\<open>bool\<close>: the pointer references a backing object. A handle
  never holds \<^verbatim>\<open>nullptr\<close> (the constructor refuses it), so for a handle the only
  other case is the null state.
\<close>

definition intrusive_ptr_defined :: "ptr \<Rightarrow> bool" where
  "intrusive_ptr_defined p = (case p of Object a \<Rightarrow> True | _ \<Rightarrow> False)"

subsection \<open>Construction, copy, destruction\<close>

text \<open>\<^verbatim>\<open>Tensor(){}\<close>: the member \<^verbatim>\<open>impl_\<close> is default-constructed, in its null state.\<close>

definition Tensor_default :: Tensor where
  "Tensor_default = \<lparr>impl = NullObject\<rparr>"

text \<open>\<^verbatim>\<open>explicit Tensor(unsafe_borrow_t, const Tensor& rhs)\<close>\<close>

definition Tensor_unsafe_borrow :: "Tensor \<Rightarrow> heap \<Rightarrow> Tensor \<times> heap" where
  "Tensor_unsafe_borrow rhs s =
     (let (p, s') = intrusive_ptr_reclaim (intrusive_ptr_get (impl rhs)) s
      in (\<lparr>impl = p\<rparr>, s'))"

text \<open>
  \<^verbatim>\<open>explicit Tensor(c10::intrusive_ptr<TensorImpl, UndefinedTensorImpl> tensor_impl)\<close>:
  the argument is moved into \<^verbatim>\<open>impl_\<close>, so no count changes. The test is
  \<^verbatim>\<open>impl_.get() == nullptr\<close>: a pointer in its null state passes it.
\<close>

definition Tensor_from_intrusive_ptr :: "ptr \<Rightarrow> error + Tensor" where
  "Tensor_from_intrusive_ptr tensor_impl =
     (let t = \<lparr>impl = tensor_impl\<rparr>
      in if intrusive_ptr_get (impl t) = Nullptr then Inl InvariantViolation else Inr t)"

text \<open>\<^verbatim>\<open>Tensor(const Tensor&) = default\<close>\<close>

definition Tensor_copy :: "Tensor \<Rightarrow> heap \<Rightarrow> Tensor \<times> heap" where
  "Tensor_copy rhs s = (let (p, s') = intrusive_ptr_copy (impl rhs) s in (\<lparr>impl = p\<rparr>, s'))"

text \<open>The implicit destructor: it destroys \<^verbatim>\<open>impl_\<close>.\<close>

definition Tensor_destroy :: "Tensor \<Rightarrow> heap \<Rightarrow> heap" where
  "Tensor_destroy t s = snd (intrusive_ptr_reset (impl t) s)"

definition unsafeGetTensorImpl :: "Tensor \<Rightarrow> ptr" where
  "unsafeGetTensorImpl t = intrusive_ptr_get (impl t)"

definition unsafeReleaseTensorImpl :: "Tensor \<Rightarrow> heap \<Rightarrow> (ptr \<times> Tensor) \<times> heap" where
  \<comment> \<open>the raw pointer returned, the handle afterwards, the heap\<close>
  "unsafeReleaseTensorImpl t s =
     (let ((raw, p), s') = intrusive_ptr_release (impl t) s in ((raw, t\<lparr>impl := p\<rparr>), s'))"

definition defined :: "Tensor \<Rightarrow> bool" where
  "defined t = intrusive_ptr_defined (impl t)"


definition is_same :: "Tensor \<Rightarrow> Tensor \<Rightarrow> bool" where
  "is_same t other = (impl t = impl other)"

definition use_count :: "Tensor \<Rightarrow> heap \<Rightarrow> nat" where
  "use_count t s = intrusive_ptr_use_count (impl t) s"

text \<open>A defined handle whose object is alive.\<close>

definition alive :: "Tensor \<Rightarrow> heap \<Rightarrow> bool" where
  "alive t s = (case impl t of Object a \<Rightarrow> lookup s a \<noteq> None | _ \<Rightarrow> False)"

subsection \<open>\<^verbatim>\<open>MaybeOwnedTraits<at::Tensor>\<close>\<close>

definition createBorrow :: "Tensor \<Rightarrow> heap \<Rightarrow> Tensor \<times> heap" where
  "createBorrow from s = Tensor_unsafe_borrow from s"

definition destroyBorrow :: "Tensor \<Rightarrow> heap \<Rightarrow> Tensor \<times> heap" where
  "destroyBorrow toDestroy s =
     (let ((raw, t), s') = unsafeReleaseTensorImpl toDestroy s in (t, s'))"

subsection \<open>Queries answered by the backing object\<close>

text \<open>
  Modelled from the spec: \<^verbatim>\<open>impl_->\<close> on the null handle reaches the null object
  (\<^verbatim>\<open>UndefinedTensorImpl\<close>, c10/core/UndefinedTensorImpl.h), which is not among the
  sources. The specification says that a metadata or operation query invoked on the null
  handle fails with \<open>UndefinedState\<close>. A read through the raw \<^verbatim>\<open>nullptr\<close> or
  through a pointer to a destroyed object is undefined behaviour in C++.
\<close>

definition arrow :: "Tensor \<Rightarrow> heap \<Rightarrow> error + TensorImpl" where
  "arrow t s =
     (case impl t of
        NullObject \<Rightarrow> Inl UndefinedState
      | Nullptr \<Rightarrow> Inl UndefinedBehaviour
      | Object a \<Rightarrow> (case lookup s a of None \<Rightarrow> Inl UndefinedBehaviour | Some obj \<Rightarrow> Inr obj))"

definition query :: "Tensor \<Rightarrow> heap \<Rightarrow> (TensorImpl \<Rightarrow> 'a) \<Rightarrow> error + 'a" where
  "query t s f = (case arrow t s of Inl e \<Rightarrow> Inl e | Inr obj \<Rightarrow> Inr (f obj))"

definition dim :: "Tensor \<Rightarrow> heap \<Rightarrow> error + int" where
  "dim t s = query t s (\<lambda>obj. int (length (impl_sizes obj)))"

definition sizes :: "Tensor \<Rightarrow> heap \<Rightarrow> error + int list" where
  "sizes t s = query t s impl_sizes"

definition strides :: "Tensor \<Rightarrow> heap \<Rightarrow> error + int list" where
  "strides t s = query t s impl_strides"

definition numel :: "Tensor \<Rightarrow> heap \<Rightarrow> error + int" where
  "numel t s = query t s impl_numel"

definition itemsize :: "Tensor \<Rightarrow> heap \<Rightarrow> error + nat" where
  "itemsize t s = query t s impl_itemsize"





text \<open>
  \<^verbatim>\<open>Layout layout() const noexcept\<close>: no exception leaves it, so on the null handle
  it returns what the null object reports. The null object is not among the sources:
  its layout is the parameter \<open>null_layout\<close>.
\<close>

definition layout :: "Layout \<Rightarrow> Tensor \<Rightarrow> heap \<Rightarrow> error + Layout" where
  "layout null_layout t s =
     (case impl t of NullObject \<Rightarrow> Inr null_layout | _ \<Rightarrow> query t s impl_layout)"

subsection \<open>\<^verbatim>\<open>size\<close> and \<^verbatim>\<open>stride\<close>\<close>

text \<open>
  Modelled from the spec: \<^verbatim>\<open>c10::maybe_wrap_dim\<close> (c10/core/WrapDimMinimal.h) is not
  among the sources. The header calls it with \<^verbatim>\<open>wrap_scalar = false\<close>; the
  specification gives that mode as
  \<^verbatim>\<open>effective_index = index < 0 ? index + rank : index\<close>, failing with
  \<open>IndexOutOfRange\<close> if the effective index is still outside \<open>[0, rank)\<close>.
  No overflow: a rank is never negative, and it is added to a negative index only.
\<close>

definition maybe_wrap_dim :: "int \<Rightarrow> int \<Rightarrow> error + int" where
  "maybe_wrap_dim index rank =
     (let effective_index = (if index < 0 then index + rank else index)
      in if 0 \<le> effective_index \<and> effective_index < rank then Inr effective_index
         else Inl IndexOutOfRange)"

text \<open>\<^verbatim>\<open>ArrayRef::operator[]\<close> does not check its index.\<close>

definition ArrayRef_at :: "int list \<Rightarrow> int \<Rightarrow> error + int" where
  "ArrayRef_at xs i =
     (if 0 \<le> i \<and> nat i < length xs then Inr (xs ! nat i) else Inl UndefinedBehaviour)"

definition size_dim :: "Tensor \<Rightarrow> int \<Rightarrow> heap \<Rightarrow> error + int" where
  "size_dim t d s =
     (case dim t s of
        Inl e \<Rightarrow> Inl e
      | Inr r \<Rightarrow>
          (case maybe_wrap_dim d r of
             Inl e \<Rightarrow> Inl e
           | Inr d' \<Rightarrow> (case sizes t s of Inl e \<Rightarrow> Inl e | Inr xs \<Rightarrow> ArrayRef_at xs d')))"

definition stride :: "Tensor \<Rightarrow> int \<Rightarrow> heap \<Rightarrow> error + int" where
  "stride t d s =
     (case dim t s of
        Inl e \<Rightarrow> Inl e
      | Inr r \<Rightarrow>
          (case maybe_wrap_dim d r of
             Inl e \<Rightarrow> Inl e
           | Inr d' \<Rightarrow> (case strides t s of Inl e \<Rightarrow> Inl e | Inr xs \<Rightarrow> ArrayRef_at xs d')))"

subsection \<open>\<^verbatim>\<open>suggest_memory_format\<close> and \<^verbatim>\<open>nbytes\<close>\<close>

text \<open>
  \<^verbatim>\<open>get_channels_last_strides_2d\<close> and \<^verbatim>\<open>get_channels_last_strides_3d\<close>
  (c10/core/MemoryFormat.h) are not among the sources: they are parameters, functions
  from the sizes to the strides. \<^verbatim>\<open>is_mkldnn()\<close>, \<^verbatim>\<open>is_sparse()\<close>,
  \<^verbatim>\<open>sizes()\<close> and \<^verbatim>\<open>strides()\<close> read the object of \<^verbatim>\<open>impl_\<close>, as the
  two direct calls \<^verbatim>\<open>impl_->is_strides_like_channels_last()\<close> and
  \<^verbatim>\<open>impl_->is_strides_like_channels_last_3d()\<close> do.
\<close>

definition suggest_memory_format ::
  "(int list \<Rightarrow> int list) \<Rightarrow> (int list \<Rightarrow> int list) \<Rightarrow> Tensor \<Rightarrow> bool \<Rightarrow> heap \<Rightarrow> error + MemoryFormat"
where
  "suggest_memory_format get_channels_last_strides_2d get_channels_last_strides_3d t
       channels_last_strides_exact_match s =
     (case arrow t s of
        Inl e \<Rightarrow> Inl e
      | Inr obj \<Rightarrow>
          Inr (if \<not> impl_is_mkldnn obj \<and> \<not> impl_is_sparse obj then
                 if impl_is_strides_like_channels_last obj then
                   if \<not> channels_last_strides_exact_match
                      \<or> get_channels_last_strides_2d (impl_sizes obj) = impl_strides obj
                   then ChannelsLast else Contiguous
                 else if impl_is_strides_like_channels_last_3d obj then
                   if \<not> channels_last_strides_exact_match
                      \<or> get_channels_last_strides_3d (impl_sizes obj) = impl_strides obj
                   then ChannelsLast3d else Contiguous
                 else Contiguous
               else Contiguous))"

text \<open>
  \<^verbatim>\<open>impl_->numel() * impl_->itemsize()\<close> multiplies an \<open>int64_t\<close> by a \<open>size_t\<close>:
  the product is taken in \<open>size_t\<close>, modulo \<open>2 ^ 64\<close>.
\<close>

definition nbytes :: "Layout \<Rightarrow> Tensor \<Rightarrow> heap \<Rightarrow> error + int" where
  "nbytes null_layout t s =
     (case layout null_layout t s of
        Inl e \<Rightarrow> Inl e
      | Inr l \<Rightarrow>
          if l \<noteq> Sparse then
            (case arrow t s of
               Inl e \<Rightarrow> Inl e
             | Inr obj \<Rightarrow> Inr ((impl_numel obj * int (impl_itemsize obj)) mod 2 ^ 64))
          else Inl UnsupportedOperation)"

subsection \<open>\<^verbatim>\<open>contiguous\<close> and \<^verbatim>\<open>expect_contiguous\<close>\<close>





text \<open>
  Modelled from the spec: \<^verbatim>\<open>c10::MaybeOwned\<close> (c10/util/MaybeOwned.h) is not among the
  sources. The specification gives the Borrowed View a tag (owns-a-value or
  refers-to-existing) and the payload matching that tag. \<^verbatim>\<open>borrowed\<close> builds its
  payload with \<^verbatim>\<open>MaybeOwnedTraits::createBorrow\<close>; \<^verbatim>\<open>owned\<close> moves its argument in;
  destruction runs \<^verbatim>\<open>destroyBorrow\<close> or the payload's destructor, by the tag.
\<close>

datatype MaybeOwned = Borrow Tensor | Own Tensor

definition MaybeOwned_borrowed :: "Tensor \<Rightarrow> heap \<Rightarrow> MaybeOwned \<times> heap" where
  "MaybeOwned_borrowed t s = (let (b, s') = createBorrow t s in (Borrow b, s'))"


definition MaybeOwned_destroy :: "MaybeOwned \<Rightarrow> heap \<Rightarrow> heap" where
  "MaybeOwned_destroy m s =
     (case m of Borrow b \<Rightarrow> snd (destroyBorrow b s) | Own t \<Rightarrow> Tensor_destroy t s)"


subsection \<open>Which \<^verbatim>\<open>expect_contiguous\<close> a call selects\<close>

text \<open>
  The class declares \<^verbatim>\<open>expect_contiguous\<close> twice: qualified \<^verbatim>\<open>const &\<close> (defined
  after the class) and qualified \<^verbatim>\<open>&&\<close>, \<^verbatim>\<open>= delete\<close>. Which one a call
  \<^verbatim>\<open>e.expect_contiguous(f)\<close> selects is decided at compile time from the object
  expression \<open>e\<close>: whether it is an lvalue (a named, persistent handle) or an rvalue (an
  xvalue such as \<^verbatim>\<open>std::move(x)\<close>, or a prvalue, a temporary), and whether its type
  is const. The rules are those of C++ for member functions with a ref-qualifier:
  \<^item> the implicit object parameter of a function qualified \<^verbatim>\<open>&\<close> is an lvalue
    reference, which binds to an lvalue, and to an rvalue only if it is a reference to
    const; that of a function qualified \<^verbatim>\<open>&&\<close> is an rvalue reference, which binds
    to an rvalue only; neither binds if that would drop const;
  \<^item> of two viable functions the better one binds an rvalue reference to an rvalue
    where the other binds an lvalue reference, or, with the same kind of reference, is
    the one that adds no const;
  \<^item> deleted functions take part in the resolution; a call that selects one is
    ill-formed.
\<close>

datatype value_category = lvalue | xvalue | prvalue










subsection \<open>\<^verbatim>\<open>wrap_tensor_impl\<close>\<close>

text \<open>
  \<^verbatim>\<open>enforce_invariants\<close> is declared in the class and defined elsewhere: it is a
  parameter, a check of the handle that either passes or throws. When it throws, the
  local handle \<^verbatim>\<open>r\<close> is destroyed while the exception leaves the function.
\<close>

type_synonym invariants = "Tensor \<Rightarrow> heap \<Rightarrow> error + unit"

definition wrap_tensor_impl :: "invariants \<Rightarrow> ptr \<Rightarrow> heap \<Rightarrow> (error + Tensor) \<times> heap" where
  "wrap_tensor_impl enforce_invariants tensor_impl s =
     (case Tensor_from_intrusive_ptr tensor_impl of
        Inl e \<Rightarrow> (Inl e, s)
      | Inr r \<Rightarrow>
          (case enforce_invariants r s of
             Inl e \<Rightarrow> (Inl e, Tensor_destroy r s)
           | Inr u \<Rightarrow> (Inr r, s)))"

text \<open>
  Modelled from the spec: the check the specification names, shape/stride consistency
  (the shape and the strides have the same length), failing with
  \<open>InvariantViolation\<close>; an instance of the parameter above.
\<close>

definition shape_stride_consistent :: invariants where
  "shape_stride_consistent t s =
     (case arrow t s of
        Inl e \<Rightarrow> Inl e
      | Inr obj \<Rightarrow>
          if length (impl_sizes obj) = length (impl_strides obj) then Inr ()
          else Inl InvariantViolation)"

subsection \<open>\<^verbatim>\<open>backward\<close>\<close>

text \<open>
  \<^verbatim>\<open>_backward\<close> is declared in the class and defined elsewhere: it is the parameter
  \<open>backward_impl\<close>, acting on the state \<open>'st\<close> of the autograd engine. The
  \<^verbatim>\<open>const Tensor&\<close> gradient converts to an engaged \<^verbatim>\<open>c10::optional<Tensor>\<close>.
\<close>

type_synonym 'st backward_fn =
  "Tensor \<Rightarrow> Tensor list \<Rightarrow> Tensor option \<Rightarrow> bool option \<Rightarrow> bool \<Rightarrow> 'st \<Rightarrow> error + 'st"

definition backward ::
  "'st backward_fn \<Rightarrow> Tensor \<Rightarrow> Tensor \<Rightarrow> bool option \<Rightarrow> bool \<Rightarrow> Tensor list option \<Rightarrow> 'st \<Rightarrow> error + 'st"
where
  "backward backward_impl t gradient retain_graph create_graph inputs st =
     (case inputs of
        Some xs \<Rightarrow>
          if length xs > 0 then backward_impl t xs (Some gradient) retain_graph create_graph st
          else Inl EmptyInputs
      | None \<Rightarrow> backward_impl t [] (Some gradient) retain_graph create_graph st)"

subsection \<open>Hooks\<close>

text \<open>
  A stored hook is a \<^verbatim>\<open>std::function<Tensor(const Tensor&)>\<close>; what it does besides
  returning is a change of the state \<open>'st\<close>. A hook of the user that returns void only
  changes the state.
\<close>

type_synonym 'st hook = "Tensor \<Rightarrow> 'st \<Rightarrow> Tensor \<times> 'st"

type_synonym 'st void_hook = "Tensor \<Rightarrow> 'st \<Rightarrow> 'st"

text \<open>
  Modelled from the spec: \<^verbatim>\<open>_register_hook\<close> is declared in the class and defined
  elsewhere. The specification keeps the registered hooks in insertion order, keyed by a
  monotonically increasing position token.
\<close>

definition register_hook_impl :: "'st hook \<Rightarrow> 'st hook list \<Rightarrow> nat \<times> 'st hook list" where
  "register_hook_impl h hooks = (length hooks, hooks @ [h])"

text \<open>The overload for a hook that returns void, and the one for a hook that returns a
  Tensor.\<close>

definition register_hook_void :: "'st void_hook \<Rightarrow> 'st hook list \<Rightarrow> nat \<times> 'st hook list" where
  "register_hook_void fn hooks =
     register_hook_impl (\<lambda>grad st. let st' = fn grad st in (Tensor_default, st')) hooks"

definition register_hook_var :: "'st hook \<Rightarrow> 'st hook list \<Rightarrow> nat \<times> 'st hook list" where
  "register_hook_var h hooks = register_hook_impl h hooks"

text \<open>
  Modelled from the spec: the autograd engine that runs the hooks is not among the
  sources. The specification invokes the hooks in registration order; a hook that
  returns a replacement value causes all subsequent hooks to observe the replacement. A
  stored hook always returns a handle: a defined one is a replacement, the undefined
  one is none. The result is the gradient after the last hook, the gradients the hooks
  were called with, in order, and the state.
\<close>

fun call_hooks :: "'st hook list \<Rightarrow> Tensor \<Rightarrow> 'st \<Rightarrow> Tensor \<times> Tensor list \<times> 'st" where
  "call_hooks [] grad st = (grad, [], st)"
| "call_hooks (h # hs) grad st =
     (let (res, st') = h grad st;
          (final, seen, st'') = call_hooks hs (if defined res then res else grad) st'
      in (final, grad # seen, st''))"

subsection \<open>Example objects\<close>

text \<open>A row-major \<open>2 \<times> 3\<close> array of four-byte elements, and its transpose.\<close>

definition row_major_2x3 :: TensorImpl where
  "row_major_2x3 =
     \<lparr>refcount = 1, impl_sizes = [2, 3], impl_strides = [3, 1], impl_numel = 6,
      impl_itemsize = 4, impl_layout = Strided, impl_has_storage = True,
      impl_is_sparse = False, impl_is_mkldnn = False,
      impl_is_contiguous = (\<lambda>f. f = Contiguous),
      impl_is_strides_like_channels_last = False,
      impl_is_strides_like_channels_last_3d = False\<rparr>"


text \<open>An object that breaks shape/stride consistency: two sizes, one stride.\<close>

definition inconsistent_2x3 :: TensorImpl where
  "inconsistent_2x3 = row_major_2x3\<lparr>impl_strides := [1]\<rparr>"

text \<open>A sparse object, and one whose byte count does not fit \<open>size_t\<close>.\<close>

definition sparse_2x3 :: TensorImpl where
  "sparse_2x3 = row_major_2x3\<lparr>impl_layout := Sparse, impl_is_sparse := True\<rparr>"

definition expanded_huge :: TensorImpl where
  "expanded_huge =
     row_major_2x3\<lparr>impl_sizes := [2 ^ 62], impl_strides := [0], impl_numel := 2 ^ 62,
                    impl_itemsize := 8\<rparr>"

text \<open>
  Sizes \<open>[2, 3, 4, 5]\<close> with the strides of the channels-last order, and the
  closed-form strides of that order for four sizes (an instance of the parameter of
  \<open>suggest_memory_format\<close>).
\<close>

definition channels_last_2x3x4x5 :: TensorImpl where
  "channels_last_2x3x4x5 =
     row_major_2x3\<lparr>impl_sizes := [2, 3, 4, 5], impl_strides := [60, 1, 15, 3],
                    impl_numel := 120, impl_is_contiguous := (\<lambda>f. f = ChannelsLast),
                    impl_is_strides_like_channels_last := True\<rparr>"

definition nhwc_strides :: "int list \<Rightarrow> int list" where
  "nhwc_strides xs =
     (case xs of [n, c, h, w] \<Rightarrow> [h * w * c, 1, w * c, c] | _ \<Rightarrow> [])"

definition no_strides :: "int list \<Rightarrow> int list" where
  "no_strides xs = []"


text \<open>An engine that only records the input lists \<^verbatim>\<open>_backward\<close> was called with.\<close>

definition recording_backward :: "Tensor list list backward_fn" where
  "recording_backward t inputs gradient keep_graph create_graph st = Inr (st @ [inputs])"

text \<open>A user hook that returns void and logs the gradient it was given, and a user hook
  that logs the gradient and returns a replacement.\<close>

definition logging_hook :: "Tensor list void_hook" where
  "logging_hook grad st = st @ [grad]"

definition replacing_hook :: "Tensor \<Rightarrow> Tensor list hook" where
  "replacing_hook replacement grad st = (replacement, st @ [grad])"

section \<open>Properties\<close>

subsection \<open>Borrowing leaves the strong count alone\<close>

lemma createBorrow_eq: "createBorrow h s = (\<lparr>impl = impl h\<rparr>, s)"
  by (simp add: createBorrow_def Tensor_unsafe_borrow_def intrusive_ptr_reclaim_def
      intrusive_ptr_get_def)

lemma destroyBorrow_eq: "destroyBorrow b s = (b\<lparr>impl := NullObject\<rparr>, s)"
  by (simp add: destroyBorrow_def unsafeReleaseTensorImpl_def intrusive_ptr_release_def)

lemma Tensor_destroy_null: "impl t = NullObject \<Longrightarrow> Tensor_destroy t s = s"
  by (simp add: Tensor_destroy_def intrusive_ptr_reset_def)

text \<open>For contrast, the owning copy does count: one more strong reference.\<close>

lemma Tensor_copy_use_count:
  assumes "alive h s"
  shows "use_count h (snd (Tensor_copy h s)) = use_count h s + 1"
  using assms
  by (auto simp: alive_def Tensor_copy_def intrusive_ptr_copy_def use_count_def
      intrusive_ptr_use_count_def lookup_def split: ptr.splits option.splits if_splits)

text \<open>
  Also for contrast: the ordinary destructor, run on a borrowed handle that was not
  released first, would take a strong reference away from the owner. This is what
  \<^verbatim>\<open>destroyBorrow\<close> avoids.
\<close>

lemma borrowed_destroyed_unreleased:
  assumes "alive h s" and "2 \<le> use_count h s"
  shows "use_count h (Tensor_destroy (fst (createBorrow h s)) s) = use_count h s - 1"
  using assms
  by (auto simp: createBorrow_eq alive_def Tensor_destroy_def intrusive_ptr_reset_def
      use_count_def intrusive_ptr_use_count_def lookup_def split: ptr.splits option.splits if_splits)

text \<open>
  C1. For every defined owning handle \<open>h\<close>: constructing a borrowed handle from \<open>h\<close>
  (\<^verbatim>\<open>createBorrow\<close>, through the \<^verbatim>\<open>unsafe_borrow_t\<close> constructor) does not increment the
  strong count of the backing object, and destroying the borrowed handle
  (\<^verbatim>\<open>destroyBorrow\<close>, then the destructor of the released handle) does not decrement it:
  the borrowed handle refers to the same object, and the count read through \<open>h\<close> is the
  same before the pair, between the two steps and after it; the heap as a whole is
  unchanged. The same holds for the Borrowed View that \<^verbatim>\<open>MaybeOwned::borrowed\<close> builds
  from \<open>h\<close> and its destruction.
\<close>

theorem borrow_keeps_use_count:
  assumes "alive h s"
  shows "is_same (fst (createBorrow h s)) h
       \<and> use_count h (snd (createBorrow h s)) = use_count h s
       \<and> (let (b, s1) = createBorrow h s;
              (b', s2) = destroyBorrow b s1;
              s3 = Tensor_destroy b' s2
          in \<not> defined b' \<and> use_count h s2 = use_count h s
             \<and> use_count h s3 = use_count h s \<and> s3 = s)
       \<and> (let (v, s1) = MaybeOwned_borrowed h s
          in use_count h s1 = use_count h s
             \<and> use_count h (MaybeOwned_destroy v s1) = use_count h s)"
  by (simp add: createBorrow_eq destroyBorrow_eq Tensor_destroy_null is_same_def defined_def intrusive_ptr_defined_def
      MaybeOwned_borrowed_def MaybeOwned_destroy_def)

theorem borrow_keeps_use_count_witness:
  "alive \<lparr>impl = Object 0\<rparr> [Some row_major_2x3]
   \<and> use_count \<lparr>impl = Object 0\<rparr> [Some row_major_2x3] = 1
   \<and> is_same (fst (createBorrow \<lparr>impl = Object 0\<rparr> [Some row_major_2x3])) \<lparr>impl = Object 0\<rparr>
   \<and> use_count \<lparr>impl = Object 0\<rparr> (snd (createBorrow \<lparr>impl = Object 0\<rparr> [Some row_major_2x3])) = 1
   \<and> (let (b, s1) = createBorrow \<lparr>impl = Object 0\<rparr> [Some row_major_2x3];
          (b', s2) = destroyBorrow b s1;
          s3 = Tensor_destroy b' s2
      in \<not> defined b' \<and> use_count \<lparr>impl = Object 0\<rparr> s2 = 1
         \<and> use_count \<lparr>impl = Object 0\<rparr> s3 = 1 \<and> s3 = [Some row_major_2x3])
   \<and> (let (v, s1) = MaybeOwned_borrowed \<lparr>impl = Object 0\<rparr> [Some row_major_2x3]
      in use_count \<lparr>impl = Object 0\<rparr> s1 = 1
         \<and> use_count \<lparr>impl = Object 0\<rparr> (MaybeOwned_destroy v s1) = 1)"
proof -
  have a: "alive \<lparr>impl = Object 0\<rparr> [Some row_major_2x3]"
    by (simp add: alive_def lookup_def)
  have u: "use_count \<lparr>impl = Object 0\<rparr> [Some row_major_2x3] = 1"
    by (simp add: use_count_def intrusive_ptr_use_count_def lookup_def row_major_2x3_def)
  show ?thesis
    using a u borrow_keeps_use_count [OF a] by simp
qed

subsection \<open>Facts about the example objects\<close>






subsection \<open>The fast path of \<^verbatim>\<open>contiguous\<close>\<close>




subsection \<open>\<^verbatim>\<open>expect_contiguous\<close>: borrow when conforming, own otherwise\<close>







subsection \<open>Wrapping an owned backing reference\<close>

text \<open>
  C4, as stated, fails for a reference in its null state, the reference the
  default-constructed handle holds: the constructor tests the raw pointer against
  \<^verbatim>\<open>nullptr\<close>, the null state points to the null object, so the construction does
  not fail and returns the undefined handle.
\<close>

theorem null_state_reference_counterexample:
  "Tensor_from_intrusive_ptr (impl Tensor_default) = Inr Tensor_default
   \<and> Tensor_from_intrusive_ptr (impl Tensor_default) \<noteq> Inl InvariantViolation
   \<and> \<not> defined Tensor_default"
  by (simp add: Tensor_from_intrusive_ptr_def Tensor_default_def intrusive_ptr_get_def
      defined_def intrusive_ptr_defined_def)

text \<open>
  C4, amended. For every backing reference given to the constructor from an owned
  \<^verbatim>\<open>intrusive_ptr\<close>, and to \<^verbatim>\<open>wrap_tensor_impl\<close>, which builds the handle with it:
  a reference that holds the raw null pointer fails with \<open>InvariantViolation\<close>, already
  in the constructor. Every other reference (one in its null state gives the undefined
  handle) is taken over as it is: the heap, and so the count, is unchanged, and in
  \<^verbatim>\<open>wrap_tensor_impl\<close> the check \<^verbatim>\<open>enforce_invariants\<close> is run on the handle before
  it is returned: the handle is returned exactly when the check passes, and a failure of
  the check is the failure of the call.
\<close>

theorem wrap_tensor_impl_checks:
  "Tensor_from_intrusive_ptr Nullptr = Inl InvariantViolation
   \<and> wrap_tensor_impl enforce Nullptr s = (Inl InvariantViolation, s)
   \<and> Tensor_from_intrusive_ptr NullObject = Inr Tensor_default
   \<and> (\<forall>p. p \<noteq> Nullptr \<longrightarrow>
          Tensor_from_intrusive_ptr p = Inr \<lparr>impl = p\<rparr>
          \<and> (enforce \<lparr>impl = p\<rparr> s = Inr ()
              \<longrightarrow> wrap_tensor_impl enforce p s = (Inr \<lparr>impl = p\<rparr>, s))
          \<and> (\<forall>e. enforce \<lparr>impl = p\<rparr> s = Inl e
              \<longrightarrow> fst (wrap_tensor_impl enforce p s) = Inl e)
          \<and> (\<forall>r s'. wrap_tensor_impl enforce p s = (Inr r, s')
              \<longrightarrow> impl r = p \<and> s' = s \<and> use_count r s' = intrusive_ptr_use_count p s
                  \<and> enforce r s = Inr ()))"
  by (auto simp: wrap_tensor_impl_def Tensor_from_intrusive_ptr_def intrusive_ptr_get_def
      use_count_def Tensor_default_def split: sum.splits)

theorem wrap_tensor_impl_checks_witness:
  "shape_stride_consistent \<lparr>impl = Object 0\<rparr> [Some row_major_2x3] = Inr ()
   \<and> wrap_tensor_impl shape_stride_consistent (Object 0) [Some row_major_2x3]
       = (Inr \<lparr>impl = Object 0\<rparr>, [Some row_major_2x3])
   \<and> shape_stride_consistent \<lparr>impl = Object 0\<rparr> [Some inconsistent_2x3] = Inl InvariantViolation
   \<and> fst (wrap_tensor_impl shape_stride_consistent (Object 0) [Some inconsistent_2x3])
       = Inl InvariantViolation
   \<and> wrap_tensor_impl shape_stride_consistent Nullptr [Some row_major_2x3]
       = (Inl InvariantViolation, [Some row_major_2x3])
   \<and> Tensor_from_intrusive_ptr NullObject = Inr Tensor_default"
proof -
  have ok: "shape_stride_consistent \<lparr>impl = Object 0\<rparr> [Some row_major_2x3] = Inr ()"
    by (simp add: shape_stride_consistent_def arrow_def lookup_def row_major_2x3_def)
  have bad: "shape_stride_consistent \<lparr>impl = Object 0\<rparr> [Some inconsistent_2x3] = Inl InvariantViolation"
    by (simp add: shape_stride_consistent_def arrow_def lookup_def row_major_2x3_def
        inconsistent_2x3_def)
  show ?thesis
    using ok bad
      wrap_tensor_impl_checks [of shape_stride_consistent "[Some row_major_2x3]"]
      wrap_tensor_impl_checks [of shape_stride_consistent "[Some inconsistent_2x3]"]
    by auto
qed

subsection \<open>The null handle\<close>





subsection \<open>Negative indices wrap\<close>

lemma maybe_wrap_dim_nonneg:
  "0 \<le> d \<Longrightarrow> d < r \<Longrightarrow> maybe_wrap_dim d r = Inr d"
  by (simp add: maybe_wrap_dim_def)

lemma maybe_wrap_dim_neg:
  "0 \<le> d \<Longrightarrow> d < r \<Longrightarrow> maybe_wrap_dim (d - r) r = Inr d"
  by (simp add: maybe_wrap_dim_def)

lemma maybe_wrap_dim_rank: "maybe_wrap_dim r r = Inl IndexOutOfRange"
  by (simp add: maybe_wrap_dim_def)

lemma maybe_wrap_dim_below: "0 \<le> r \<Longrightarrow> maybe_wrap_dim (- r - 1) r = Inl IndexOutOfRange"
  by (simp add: maybe_wrap_dim_def)

lemma dim_Inr:
  "dim h s = Inr r \<Longrightarrow> \<exists>obj. arrow h s = Inr obj \<and> r = int (length (impl_sizes obj))"
  by (auto simp: dim_def query_def split: sum.splits)

lemma size_dim_wrapped:
  assumes "dim h s = Inr r" and "maybe_wrap_dim d r = Inr d'" and "sizes h s = Inr xs"
  shows "size_dim h d s = ArrayRef_at xs d'"
  using assms by (simp add: size_dim_def)

lemma stride_wrapped:
  assumes "dim h s = Inr r" and "maybe_wrap_dim d r = Inr d'" and "strides h s = Inr ys"
  shows "stride h d s = ArrayRef_at ys d'"
  using assms by (simp add: stride_def)

lemma size_dim_out_of_range:
  assumes "dim h s = Inr r" and "maybe_wrap_dim d r = Inl e"
  shows "size_dim h d s = Inl e"
  using assms by (simp add: size_dim_def)

lemma stride_out_of_range:
  assumes "dim h s = Inr r" and "maybe_wrap_dim d r = Inl e"
  shows "stride h d s = Inl e"
  using assms by (simp add: stride_def)

lemma row_major_dim: "dim \<lparr>impl = Object 0\<rparr> [Some row_major_2x3] = Inr 2"
  by (simp add: dim_def query_def arrow_def lookup_def row_major_2x3_def)

lemma row_major_sizes: "sizes \<lparr>impl = Object 0\<rparr> [Some row_major_2x3] = Inr [2, 3]"
  by (simp add: sizes_def query_def arrow_def lookup_def row_major_2x3_def)

lemma row_major_strides: "strides \<lparr>impl = Object 0\<rparr> [Some row_major_2x3] = Inr [3, 1]"
  by (simp add: strides_def query_def arrow_def lookup_def row_major_2x3_def)

text \<open>
  C6. For every defined handle \<open>h\<close> of rank \<open>r\<close>: for every \<open>d\<close> in \<open>[0, r)\<close>,
  \<open>size(d)\<close> and \<open>size(d - r)\<close> both return the \<open>d\<close>-th size; \<open>size(r)\<close> and
  \<open>size(-r-1)\<close> both fail with \<open>IndexOutOfRange\<close>. The same holds for \<open>stride\<close>:
  \<open>stride(d - r)\<close> equals \<open>stride(d)\<close>, which is the \<open>d\<close>-th stride when there are
  as many strides as sizes, and \<open>stride(r)\<close>, \<open>stride(-r-1)\<close> fail with
  \<open>IndexOutOfRange\<close>.
\<close>

theorem size_stride_wrap:
  assumes "dim h s = Inr r"
  shows "(\<forall>d xs. 0 \<le> d \<and> d < r \<and> sizes h s = Inr xs \<longrightarrow>
            size_dim h d s = Inr (xs ! nat d) \<and> size_dim h (d - r) s = Inr (xs ! nat d))
       \<and> (\<forall>d ys. 0 \<le> d \<and> d < r \<and> strides h s = Inr ys \<longrightarrow>
            stride h (d - r) s = stride h d s
            \<and> (length ys = nat r \<longrightarrow> stride h d s = Inr (ys ! nat d)))
       \<and> size_dim h r s = Inl IndexOutOfRange
       \<and> size_dim h (- r - 1) s = Inl IndexOutOfRange
       \<and> stride h r s = Inl IndexOutOfRange
       \<and> stride h (- r - 1) s = Inl IndexOutOfRange"
proof -
  from assms obtain obj where obj: "arrow h s = Inr obj" "r = int (length (impl_sizes obj))"
    using dim_Inr by blast
  have r0: "0 \<le> r" using obj by simp
  have e1: "size_dim h r s = Inl IndexOutOfRange"
    by (rule size_dim_out_of_range [OF assms maybe_wrap_dim_rank])
  have e2: "size_dim h (- r - 1) s = Inl IndexOutOfRange"
    by (rule size_dim_out_of_range [OF assms maybe_wrap_dim_below [OF r0]])
  have e3: "stride h r s = Inl IndexOutOfRange"
    by (rule stride_out_of_range [OF assms maybe_wrap_dim_rank])
  have e4: "stride h (- r - 1) s = Inl IndexOutOfRange"
    by (rule stride_out_of_range [OF assms maybe_wrap_dim_below [OF r0]])
  have sz: "size_dim h d s = Inr (xs ! nat d) \<and> size_dim h (d - r) s = Inr (xs ! nat d)"
    if d: "0 \<le> d" "d < r" and xs: "sizes h s = Inr xs" for d xs
  proof -
    have "xs = impl_sizes obj" using xs obj by (simp add: sizes_def query_def)
    then have "nat d < length xs" using d obj by simp
    then have at: "ArrayRef_at xs d = Inr (xs ! nat d)"
      using d by (simp add: ArrayRef_at_def)
    show ?thesis
      using size_dim_wrapped [OF assms maybe_wrap_dim_nonneg [OF d] xs]
        size_dim_wrapped [OF assms maybe_wrap_dim_neg [OF d] xs] at
      by simp
  qed
  have st: "stride h (d - r) s = stride h d s
            \<and> (length ys = nat r \<longrightarrow> stride h d s = Inr (ys ! nat d))"
    if d: "0 \<le> d" "d < r" and ys: "strides h s = Inr ys" for d ys
  proof -
    have at: "length ys = nat r \<longrightarrow> ArrayRef_at ys d = Inr (ys ! nat d)"
      using d by (simp add: ArrayRef_at_def)
    show ?thesis
      using stride_wrapped [OF assms maybe_wrap_dim_nonneg [OF d] ys]
        stride_wrapped [OF assms maybe_wrap_dim_neg [OF d] ys] at
      by simp
  qed
  show ?thesis
    using e1 e2 e3 e4 sz st by blast
qed

theorem size_stride_wrap_witness:
  "dim \<lparr>impl = Object 0\<rparr> [Some row_major_2x3] = Inr 2
   \<and> sizes \<lparr>impl = Object 0\<rparr> [Some row_major_2x3] = Inr [2, 3]
   \<and> strides \<lparr>impl = Object 0\<rparr> [Some row_major_2x3] = Inr [3, 1]
   \<and> size_dim \<lparr>impl = Object 0\<rparr> 1 [Some row_major_2x3] = Inr 3
   \<and> size_dim \<lparr>impl = Object 0\<rparr> (- 1) [Some row_major_2x3] = Inr 3
   \<and> stride \<lparr>impl = Object 0\<rparr> 1 [Some row_major_2x3] = Inr 1
   \<and> stride \<lparr>impl = Object 0\<rparr> (- 1) [Some row_major_2x3] = Inr 1
   \<and> size_dim \<lparr>impl = Object 0\<rparr> 2 [Some row_major_2x3] = Inl IndexOutOfRange
   \<and> size_dim \<lparr>impl = Object 0\<rparr> (- 3) [Some row_major_2x3] = Inl IndexOutOfRange
   \<and> stride \<lparr>impl = Object 0\<rparr> 2 [Some row_major_2x3] = Inl IndexOutOfRange
   \<and> stride \<lparr>impl = Object 0\<rparr> (- 3) [Some row_major_2x3] = Inl IndexOutOfRange"
proof -
  note w = size_stride_wrap [OF row_major_dim]
  have s1: "size_dim \<lparr>impl = Object 0\<rparr> 1 [Some row_major_2x3] = Inr 3
          \<and> size_dim \<lparr>impl = Object 0\<rparr> (- 1) [Some row_major_2x3] = Inr 3"
    using w [THEN conjunct1, rule_format, of 1 "[2, 3]"] row_major_sizes by simp
  have s2: "stride \<lparr>impl = Object 0\<rparr> 1 [Some row_major_2x3] = Inr 1
          \<and> stride \<lparr>impl = Object 0\<rparr> (- 1) [Some row_major_2x3] = Inr 1"
    using w [THEN conjunct2, THEN conjunct1, rule_format, of 1 "[3, 1]"] row_major_strides
    by simp
  have e: "size_dim \<lparr>impl = Object 0\<rparr> 2 [Some row_major_2x3] = Inl IndexOutOfRange
   \<and> size_dim \<lparr>impl = Object 0\<rparr> (- 3) [Some row_major_2x3] = Inl IndexOutOfRange
   \<and> stride \<lparr>impl = Object 0\<rparr> 2 [Some row_major_2x3] = Inl IndexOutOfRange
   \<and> stride \<lparr>impl = Object 0\<rparr> (- 3) [Some row_major_2x3] = Inl IndexOutOfRange"
    using w [THEN conjunct2, THEN conjunct2] by simp
  show ?thesis
    using s1 s2 e row_major_dim row_major_sizes row_major_strides by simp
qed

subsection \<open>\<^verbatim>\<open>suggest_memory_format\<close>\<close>

lemma channels_last_arrow:
  "arrow \<lparr>impl = Object 0\<rparr> [Some channels_last_2x3x4x5] = Inr channels_last_2x3x4x5"
  by (simp add: arrow_def lookup_def)

lemma row_major_arrow:
  "arrow \<lparr>impl = Object 0\<rparr> [Some row_major_2x3] = Inr row_major_2x3"
  by (simp add: arrow_def lookup_def)

text \<open>
  C7. For every defined handle, with \<open>obj\<close> its backing object:
  \<open>suggest_memory_format\<close> returns a format. It is \<open>ChannelsLast\<close> only when the
  object is neither mkldnn nor sparse and its strides are like channels-last (the
  four-dimensional pattern), \<open>ChannelsLast3d\<close> only when it is neither mkldnn nor sparse
  and its strides are like channels-last-3d (the five-dimensional pattern); with the
  exact-match flag set, either answer also requires the strides to equal the closed-form
  strides computed from the sizes alone. In every other case the answer is
  \<open>Contiguous\<close>. Conversely the four-dimensional conditions give \<open>ChannelsLast\<close>, and
  the five-dimensional ones give \<open>ChannelsLast3d\<close> when the four-dimensional pattern
  does not match.
\<close>

theorem suggest_memory_format_cases:
  assumes "arrow h s = Inr obj"
  shows "\<exists>m. suggest_memory_format g2 g3 h exact s = Inr m
       \<and> (m = ChannelsLast \<longrightarrow>
             \<not> impl_is_mkldnn obj \<and> \<not> impl_is_sparse obj
             \<and> impl_is_strides_like_channels_last obj
             \<and> (exact \<longrightarrow> g2 (impl_sizes obj) = impl_strides obj))
       \<and> (m = ChannelsLast3d \<longrightarrow>
             \<not> impl_is_mkldnn obj \<and> \<not> impl_is_sparse obj
             \<and> impl_is_strides_like_channels_last_3d obj
             \<and> (exact \<longrightarrow> g3 (impl_sizes obj) = impl_strides obj))
       \<and> (m \<noteq> ChannelsLast \<and> m \<noteq> ChannelsLast3d \<longrightarrow> m = Contiguous)
       \<and> (\<not> impl_is_mkldnn obj \<and> \<not> impl_is_sparse obj
             \<and> impl_is_strides_like_channels_last obj
             \<and> (exact \<longrightarrow> g2 (impl_sizes obj) = impl_strides obj) \<longrightarrow> m = ChannelsLast)
       \<and> (\<not> impl_is_mkldnn obj \<and> \<not> impl_is_sparse obj
             \<and> \<not> impl_is_strides_like_channels_last obj
             \<and> impl_is_strides_like_channels_last_3d obj
             \<and> (exact \<longrightarrow> g3 (impl_sizes obj) = impl_strides obj) \<longrightarrow> m = ChannelsLast3d)"
  using assms by (simp add: suggest_memory_format_def)

theorem suggest_memory_format_cases_witness:
  "arrow \<lparr>impl = Object 0\<rparr> [Some channels_last_2x3x4x5] = Inr channels_last_2x3x4x5
   \<and> nhwc_strides (impl_sizes channels_last_2x3x4x5) = impl_strides channels_last_2x3x4x5
   \<and> suggest_memory_format nhwc_strides no_strides \<lparr>impl = Object 0\<rparr> True
        [Some channels_last_2x3x4x5] = Inr ChannelsLast
   \<and> arrow \<lparr>impl = Object 0\<rparr> [Some row_major_2x3] = Inr row_major_2x3
   \<and> suggest_memory_format nhwc_strides no_strides \<lparr>impl = Object 0\<rparr> True
        [Some row_major_2x3] = Inr Contiguous"
proof -
  have f: "\<not> impl_is_mkldnn channels_last_2x3x4x5 \<and> \<not> impl_is_sparse channels_last_2x3x4x5
           \<and> impl_is_strides_like_channels_last channels_last_2x3x4x5
           \<and> nhwc_strides (impl_sizes channels_last_2x3x4x5) = impl_strides channels_last_2x3x4x5"
    by (simp add: channels_last_2x3x4x5_def row_major_2x3_def nhwc_strides_def)
  have g: "\<not> impl_is_strides_like_channels_last row_major_2x3
           \<and> \<not> impl_is_strides_like_channels_last_3d row_major_2x3"
    by (simp add: row_major_2x3_def)
  have a: "suggest_memory_format nhwc_strides no_strides \<lparr>impl = Object 0\<rparr> True
        [Some channels_last_2x3x4x5] = Inr ChannelsLast"
    using f suggest_memory_format_cases [OF channels_last_arrow, of nhwc_strides no_strides True]
    by auto
  have b: "suggest_memory_format nhwc_strides no_strides \<lparr>impl = Object 0\<rparr> True
        [Some row_major_2x3] = Inr Contiguous"
    using g suggest_memory_format_cases [OF row_major_arrow, of nhwc_strides no_strides True]
    by auto
  show ?thesis
    using a b f channels_last_arrow row_major_arrow by simp
qed

subsection \<open>\<^verbatim>\<open>nbytes\<close>\<close>

lemma queries_same_object:
  assumes "layout nl h s = Inr l" and "numel h s = Inr n" and "itemsize h s = Inr b"
  shows "\<exists>obj. arrow h s = Inr obj \<and> impl_layout obj = l \<and> impl_numel obj = n
               \<and> impl_itemsize obj = b"
  using assms
  by (auto simp: layout_def numel_def itemsize_def query_def arrow_def
      split: sum.splits ptr.splits option.splits)

text \<open>
  C8, as stated, fails where the product does not fit \<open>size_t\<close>: an object of
  \<open>2 ^ 62\<close> elements of eight bytes each (a one-element array expanded with stride
  zero has such a shape) is not sparse, and \<open>nbytes\<close> returns \<open>0\<close>, not
  \<open>2 ^ 62 * 8\<close>.
\<close>

theorem nbytes_counterexample:
  "layout Strided \<lparr>impl = Object 0\<rparr> [Some expanded_huge] = Inr Strided
   \<and> numel \<lparr>impl = Object 0\<rparr> [Some expanded_huge] = Inr (2 ^ 62)
   \<and> itemsize \<lparr>impl = Object 0\<rparr> [Some expanded_huge] = Inr 8
   \<and> nbytes Strided \<lparr>impl = Object 0\<rparr> [Some expanded_huge] = Inr 0
   \<and> nbytes Strided \<lparr>impl = Object 0\<rparr> [Some expanded_huge] \<noteq> Inr (2 ^ 62 * 8)"
  by (simp add: nbytes_def layout_def numel_def itemsize_def query_def arrow_def lookup_def
      expanded_huge_def row_major_2x3_def)

text \<open>
  C8, amended. For every defined handle of layout \<open>l\<close>, element count \<open>n\<close> and
  element width \<open>b\<close>: \<open>nbytes\<close> fails with \<open>UnsupportedOperation\<close> when the layout
  is sparse; otherwise it returns \<open>n * b\<close> as computed in \<open>size_t\<close>, that is modulo
  \<open>2 ^ 64\<close>, which is exactly \<open>n * b\<close> whenever \<open>0 \<le> n\<close> and \<open>n * b < 2 ^ 64\<close>.
\<close>

theorem nbytes_sparse_or_product:
  assumes "layout nl h s = Inr l" and "numel h s = Inr n" and "itemsize h s = Inr b"
  shows "(l = Sparse \<longrightarrow> nbytes nl h s = Inl UnsupportedOperation)
       \<and> (l \<noteq> Sparse \<longrightarrow> nbytes nl h s = Inr ((n * int b) mod 2 ^ 64))
       \<and> (l \<noteq> Sparse \<and> 0 \<le> n \<and> n * int b < 2 ^ 64 \<longrightarrow> nbytes nl h s = Inr (n * int b))"
proof -
  from queries_same_object [OF assms] obtain obj
    where obj: "arrow h s = Inr obj" "impl_layout obj = l" "impl_numel obj = n"
      "impl_itemsize obj = b"
    by blast
  have m: "0 \<le> n \<Longrightarrow> n * int b < 2 ^ 64 \<Longrightarrow> (n * int b) mod 2 ^ 64 = n * int b"
    by (simp add: mult_nonneg_nonneg)
  show ?thesis
    using obj assms m by (simp add: nbytes_def)
qed

theorem nbytes_sparse_or_product_witness:
  "layout Strided \<lparr>impl = Object 0\<rparr> [Some row_major_2x3] = Inr Strided
   \<and> numel \<lparr>impl = Object 0\<rparr> [Some row_major_2x3] = Inr 6
   \<and> itemsize \<lparr>impl = Object 0\<rparr> [Some row_major_2x3] = Inr 4
   \<and> nbytes Strided \<lparr>impl = Object 0\<rparr> [Some row_major_2x3] = Inr 24
   \<and> layout Strided \<lparr>impl = Object 0\<rparr> [Some sparse_2x3] = Inr Sparse
   \<and> nbytes Strided \<lparr>impl = Object 0\<rparr> [Some sparse_2x3] = Inl UnsupportedOperation"
proof -
  have q: "layout Strided \<lparr>impl = Object 0\<rparr> [Some row_major_2x3] = Inr Strided"
    "numel \<lparr>impl = Object 0\<rparr> [Some row_major_2x3] = Inr 6"
    "itemsize \<lparr>impl = Object 0\<rparr> [Some row_major_2x3] = Inr 4"
    by (simp_all add: layout_def numel_def itemsize_def query_def arrow_def lookup_def
        row_major_2x3_def)
  have r: "layout Strided \<lparr>impl = Object 0\<rparr> [Some sparse_2x3] = Inr Sparse"
    "numel \<lparr>impl = Object 0\<rparr> [Some sparse_2x3] = Inr 6"
    "itemsize \<lparr>impl = Object 0\<rparr> [Some sparse_2x3] = Inr 4"
    by (simp_all add: layout_def numel_def itemsize_def query_def arrow_def lookup_def
        row_major_2x3_def sparse_2x3_def)
  show ?thesis
    using q r nbytes_sparse_or_product [OF q] nbytes_sparse_or_product [OF r] by simp
qed

subsection \<open>\<^verbatim>\<open>backward\<close>\<close>

text \<open>
  C9. For every handle and every engine \<open>backward_impl\<close>: \<open>backward\<close> with an inputs
  argument that is present and empty fails with the error of its check, whatever the
  engine is (nothing is forwarded to it); with the inputs absent the result is that of
  \<^verbatim>\<open>_backward\<close> called with the empty list, so the call fails only if the engine does;
  with a non-empty list the result is that of \<^verbatim>\<open>_backward\<close> called with that list.
\<close>

theorem backward_empty_inputs:
  "backward backward_impl t gradient retain_graph create_graph (Some []) st = Inl EmptyInputs
   \<and> backward backward_impl t gradient retain_graph create_graph None st
       = backward_impl t [] (Some gradient) retain_graph create_graph st
   \<and> (\<forall>x xs. backward backward_impl t gradient retain_graph create_graph (Some (x # xs)) st
       = backward_impl t (x # xs) (Some gradient) retain_graph create_graph st)"
  by (simp add: backward_def)

theorem backward_empty_inputs_witness:
  "backward recording_backward \<lparr>impl = Object 0\<rparr> Tensor_default None False (Some []) []
     = Inl EmptyInputs
   \<and> backward recording_backward \<lparr>impl = Object 0\<rparr> Tensor_default None False None []
     = Inr [[]]
   \<and> backward recording_backward \<lparr>impl = Object 0\<rparr> Tensor_default None False
        (Some [\<lparr>impl = Object 1\<rparr>]) []
     = Inr [[\<lparr>impl = Object 1\<rparr>]]"
  using backward_empty_inputs
    [of recording_backward "\<lparr>impl = Object 0\<rparr>" Tensor_default None False "[]"]
  by (simp add: recording_backward_def)

subsection \<open>Hooks that return void\<close>

lemma call_hooks_append:
  "call_hooks (xs @ ys) grad st =
     (let (g1, seen1, st1) = call_hooks xs grad st;
          (g2, seen2, st2) = call_hooks ys g1 st1
      in (g2, seen1 @ seen2, st2))"
  by (induction xs arbitrary: grad st) (auto split: prod.splits)

lemma call_hooks_void:
  "call_hooks [\<lambda>grad st. let st' = fn grad st in (Tensor_default, st')] grad st
     = (grad, [grad], fn grad st)"
  by (simp add: defined_def intrusive_ptr_defined_def Tensor_default_def)

text \<open>
  C10. For every user hook \<open>fn\<close> that returns void, \<open>register_hook\<close> stores, at the
  next position, a wrapper that runs \<open>fn\<close> on the gradient and then returns the
  default-constructed handle, which is undefined. So when the hooks run, the hooks
  registered before it, the void hook itself and the hooks after it are called in that
  order, and the hooks after it start from the very gradient \<open>g1\<close> the void hook was
  given: the void hook replaces nothing.
\<close>

theorem register_hook_void_keeps_gradient:
  "fst (register_hook_void fn hooks) = length hooks
   \<and> (\<exists>w. snd (register_hook_void fn hooks) = hooks @ [w]
           \<and> (\<forall>grad st. w grad st = (Tensor_default, fn grad st)))
   \<and> \<not> defined Tensor_default
   \<and> (\<forall>later grad st.
         call_hooks (snd (register_hook_void fn hooks) @ later) grad st =
           (let (g1, seen1, st1) = call_hooks hooks grad st;
                (g2, seen2, st2) = call_hooks later g1 (fn g1 st1)
            in (g2, seen1 @ g1 # seen2, st2)))"
proof -
  have reg: "register_hook_void fn hooks
      = (length hooks, hooks @ [\<lambda>grad st. let st' = fn grad st in (Tensor_default, st')])"
    by (simp add: register_hook_void_def register_hook_impl_def)
  have chain: "call_hooks ((hooks @ [\<lambda>grad st. let st' = fn grad st in (Tensor_default, st')]) @ later) grad st =
           (let (g1, seen1, st1) = call_hooks hooks grad st;
                (g2, seen2, st2) = call_hooks later g1 (fn g1 st1)
            in (g2, seen1 @ g1 # seen2, st2))" for later grad st
    unfolding append_assoc
    by (simp add: call_hooks_append [of hooks] call_hooks_append [of "[_]"] call_hooks_void
        defined_def intrusive_ptr_defined_def Tensor_default_def split: prod.splits)
  show ?thesis
    using chain by (simp add: reg defined_def intrusive_ptr_defined_def Tensor_default_def)
qed

theorem register_hook_void_keeps_gradient_witness:
  "fst (register_hook_void logging_hook [replacing_hook \<lparr>impl = Object 1\<rparr>]) = 1
   \<and> call_hooks
        (snd (register_hook_void logging_hook [replacing_hook \<lparr>impl = Object 1\<rparr>])
           @ [replacing_hook \<lparr>impl = Object 2\<rparr>])
        \<lparr>impl = Object 0\<rparr> []
      = (\<lparr>impl = Object 2\<rparr>,
         [\<lparr>impl = Object 0\<rparr>, \<lparr>impl = Object 1\<rparr>, \<lparr>impl = Object 1\<rparr>],
         [\<lparr>impl = Object 0\<rparr>, \<lparr>impl = Object 1\<rparr>, \<lparr>impl = Object 1\<rparr>])"
  using register_hook_void_keeps_gradient [of logging_hook "[replacing_hook \<lparr>impl = Object 1\<rparr>]"]
  by (simp add: logging_hook_def replacing_hook_def defined_def intrusive_ptr_defined_def)

end
